theory Spec2Isabelle
  imports Main
begin

section \<open>Enumerations of \<^verbatim>\<open>app/models.py\<close>\<close>

text \<open>
  The four \<^verbatim>\<open>(str, Enum)\<close> classes. Every member is a constructor; the string a member
  stands for is given by the value function of its class.
\<close>

datatype MaritalStatus = SINGLE | DIVORCED | WIDOWED

datatype EducationLevel =
  PRIMARY | SECONDARY | DIPLOMA | BACHELOR | MASTER | DOCTORATE | PROFESSIONAL

datatype Religion = ISLAM | CHRISTIANITY | HINDUISM | BUDDHISM | JUDAISM | OTHER

datatype LetterType = N1 | N2 | N3 | N4 | N5

fun MaritalStatus_value :: "MaritalStatus \<Rightarrow> string" where
  "MaritalStatus_value SINGLE = ''single''"
| "MaritalStatus_value DIVORCED = ''divorced''"
| "MaritalStatus_value WIDOWED = ''widowed''"

fun EducationLevel_value :: "EducationLevel \<Rightarrow> string" where
  "EducationLevel_value PRIMARY = ''primary''"
| "EducationLevel_value SECONDARY = ''secondary''"
| "EducationLevel_value DIPLOMA = ''diploma''"
| "EducationLevel_value BACHELOR = ''bachelor''"
| "EducationLevel_value MASTER = ''master''"
| "EducationLevel_value DOCTORATE = ''doctorate''"
| "EducationLevel_value PROFESSIONAL = ''professional''"

fun Religion_value :: "Religion \<Rightarrow> string" where
  "Religion_value ISLAM = ''islam''"
| "Religion_value CHRISTIANITY = ''christianity''"
| "Religion_value HINDUISM = ''hinduism''"
| "Religion_value BUDDHISM = ''buddhism''"
| "Religion_value JUDAISM = ''judaism''"
| "Religion_value OTHER = ''other''"

fun LetterType_value :: "LetterType \<Rightarrow> string" where
  "LetterType_value N1 = ''N1''"
| "LetterType_value N2 = ''N2''"
| "LetterType_value N3 = ''N3''"
| "LetterType_value N4 = ''N4''"
| "LetterType_value N5 = ''N5''"

text \<open>The enum classes as one type, so that a field annotation can name its class.\<close>

datatype enum_class = MaritalStatusE | EducationLevelE | ReligionE | LetterTypeE

datatype enum_member =
  OfMaritalStatus MaritalStatus
| OfEducationLevel EducationLevel
| OfReligion Religion
| OfLetterType LetterType

fun member_value :: "enum_member \<Rightarrow> string" where
  "member_value (OfMaritalStatus m) = MaritalStatus_value m"
| "member_value (OfEducationLevel m) = EducationLevel_value m"
| "member_value (OfReligion m) = Religion_value m"
| "member_value (OfLetterType m) = LetterType_value m"

text \<open>The members of a class, in the order of their definition.\<close>

fun members :: "enum_class \<Rightarrow> enum_member list" where
  "members MaritalStatusE = map OfMaritalStatus [SINGLE, DIVORCED, WIDOWED]"
| "members EducationLevelE = map OfEducationLevel
     [PRIMARY, SECONDARY, DIPLOMA, BACHELOR, MASTER, DOCTORATE, PROFESSIONAL]"
| "members ReligionE = map OfReligion
     [ISLAM, CHRISTIANITY, HINDUISM, BUDDHISM, JUDAISM, OTHER]"
| "members LetterTypeE = map OfLetterType [N1, N2, N3, N4, N5]"

text \<open>
  \<^verbatim>\<open>Religion("islam")\<close>: calling an enum class on a value returns the member with that
  value, and raises \<^verbatim>\<open>ValueError\<close> (here \<open>None\<close>) when no member has it.
\<close>

definition enum_lookup :: "enum_class \<Rightarrow> string \<Rightarrow> enum_member option" where
  "enum_lookup c s = find (\<lambda>m. member_value m = s) (members c)"

section \<open>Types, values and field declarations\<close>

text \<open>The type annotations the models use.\<close>

datatype py_type =
  PInt | PStr | PBool | PDate | PDatetime | PDecimal
| PEnum enum_class
| POptional py_type
| PList py_type
| PDictStrAny
| PModel string

text \<open>
  Python values: \<open>VDate\<close> and \<open>VDatetime\<close> carry a day and an instant as numbers,
  \<open>VDecimal c p\<close> is the decimal \<open>c / 10 ^ p\<close>, and \<open>VObj n kv\<close> is an instance of the
  class named \<open>n\<close> with the attributes \<open>kv\<close>.
\<close>

datatype py_val =
  VNone
| VBool bool
| VInt int
| VStr string
| VDecimal int nat
| VDate int
| VDatetime int
| VEnum enum_member
| VList "py_val list"
| VDict "(string \<times> py_val) list"
| VObj string "(string \<times> py_val) list"

datatype factory = utcnow

datatype default_decl = Required | Default py_val | DefaultFactory factory

datatype sa_type = JSON

text \<open>
  One annotated attribute of a model class, with the keyword arguments of
  \<^verbatim>\<open>Field(...)\<close> that the source uses. \<open>dflt\<close> is \<open>Required\<close> when neither
  \<^verbatim>\<open>default\<close> nor \<^verbatim>\<open>default_factory\<close> is given.
\<close>

record field_decl =
  fname :: string
  ftype :: py_type
  dflt :: default_decl
  max_length :: "nat option"
  primary_key :: bool
  foreign_key :: "string option"
  unique :: bool
  decimal_places :: "nat option"
  sa_column :: "sa_type option"

text \<open>A bare annotation \<^verbatim>\<open>name: type\<close>; the keyword arguments are record updates of it.\<close>

definition Field :: "string \<Rightarrow> py_type \<Rightarrow> field_decl" where
  "Field n t = \<lparr>fname = n, ftype = t, dflt = Required, max_length = None,
     primary_key = False, foreign_key = None, unique = False, decimal_places = None,
     sa_column = None\<rparr>"

text \<open>One \<^verbatim>\<open>Relationship(...)\<close> attribute.\<close>

record relationship_decl =
  rname :: string
  rtype :: py_type
  back_populates :: string
  foreign_keys :: string

definition Relationship :: "string \<Rightarrow> py_type \<Rightarrow> string \<Rightarrow> string \<Rightarrow> relationship_decl" where
  "Relationship n t b k = \<lparr>rname = n, rtype = t, back_populates = b, foreign_keys = k\<rparr>"

text \<open>A class deriving from \<^verbatim>\<open>SQLModel\<close>.\<close>

record model =
  cls_name :: string
  table :: bool
  tablename :: "string option"
  model_fields :: "field_decl list"
  relationships :: "relationship_decl list"

section \<open>Persistent models\<close>

definition Person :: model where
  "Person = \<lparr>cls_name = ''Person'', table = True, tablename = Some ''persons'',
    model_fields = [
      (Field ''id'' (POptional PInt))\<lparr>dflt := Default VNone, primary_key := True\<rparr>,
      (Field ''full_name'' PStr)\<lparr>max_length := Some 255\<rparr>,
      Field ''date_of_birth'' PDate,
      (Field ''place_of_birth'' PStr)\<lparr>max_length := Some 255\<rparr>,
      (Field ''nationality'' PStr)\<lparr>max_length := Some 100\<rparr>,
      Field ''religion'' (PEnum ReligionE),
      (Field ''occupation'' PStr)\<lparr>max_length := Some 255\<rparr>,
      Field ''education_level'' (PEnum EducationLevelE),
      (Field ''institution_name'' PStr)\<lparr>dflt := Default (VStr ''''), max_length := Some 255\<rparr>,
      (Field ''graduation_year'' (POptional PInt))\<lparr>dflt := Default VNone\<rparr>,
      (Field ''monthly_income'' (POptional PDecimal))
        \<lparr>dflt := Default VNone, decimal_places := Some 2\<rparr>,
      (Field ''address'' PStr)\<lparr>max_length := Some 500\<rparr>,
      (Field ''phone_number'' PStr)\<lparr>max_length := Some 20\<rparr>,
      (Field ''email'' PStr)\<lparr>dflt := Default (VStr ''''), max_length := Some 255\<rparr>,
      (Field ''height_cm'' (POptional PInt))\<lparr>dflt := Default VNone\<rparr>,
      (Field ''weight_kg'' (POptional PDecimal))
        \<lparr>dflt := Default VNone, decimal_places := Some 1\<rparr>,
      (Field ''complexion'' PStr)\<lparr>dflt := Default (VStr ''''), max_length := Some 100\<rparr>,
      (Field ''physical_disabilities'' PStr)
        \<lparr>dflt := Default (VStr ''''), max_length := Some 500\<rparr>,
      (Field ''health_conditions'' PStr)\<lparr>dflt := Default (VStr ''''), max_length := Some 500\<rparr>,
      (Field ''hobbies'' PStr)\<lparr>dflt := Default (VStr ''''), max_length := Some 500\<rparr>,
      (Field ''additional_notes'' PStr)\<lparr>dflt := Default (VStr ''''), max_length := Some 1000\<rparr>,
      (Field ''created_at'' PDatetime)\<lparr>dflt := DefaultFactory utcnow\<rparr>],
    relationships = [
      Relationship ''as_husband_letters'' (PList (PModel ''MarriageLetter''))
        ''husband'' ''[MarriageLetter.husband_id]'',
      Relationship ''as_wife_letters'' (PList (PModel ''MarriageLetter''))
        ''wife'' ''[MarriageLetter.wife_id]'',
      Relationship ''as_husband_father_letters'' (PList (PModel ''MarriageLetter''))
        ''husband_father'' ''[MarriageLetter.husband_father_id]'',
      Relationship ''as_husband_mother_letters'' (PList (PModel ''MarriageLetter''))
        ''husband_mother'' ''[MarriageLetter.husband_mother_id]'',
      Relationship ''as_wife_father_letters'' (PList (PModel ''MarriageLetter''))
        ''wife_father'' ''[MarriageLetter.wife_father_id]'',
      Relationship ''as_wife_mother_letters'' (PList (PModel ''MarriageLetter''))
        ''wife_mother'' ''[MarriageLetter.wife_mother_id]'']\<rparr>"

definition MarriagePreferences :: model where
  "MarriagePreferences = \<lparr>cls_name = ''MarriagePreferences'', table = True,
    tablename = Some ''marriage_preferences'',
    model_fields = [
      (Field ''id'' (POptional PInt))\<lparr>dflt := Default VNone, primary_key := True\<rparr>,
      (Field ''preferred_age_min'' (POptional PInt))\<lparr>dflt := Default VNone\<rparr>,
      (Field ''preferred_age_max'' (POptional PInt))\<lparr>dflt := Default VNone\<rparr>,
      (Field ''preferred_education'' (POptional (PEnum EducationLevelE)))
        \<lparr>dflt := Default VNone\<rparr>,
      (Field ''preferred_occupation'' PStr)
        \<lparr>dflt := Default (VStr ''''), max_length := Some 255\<rparr>,
      (Field ''preferred_religion'' (POptional (PEnum ReligionE)))\<lparr>dflt := Default VNone\<rparr>,
      (Field ''preferred_nationality'' PStr)
        \<lparr>dflt := Default (VStr ''''), max_length := Some 100\<rparr>,
      (Field ''preferred_location'' PStr)
        \<lparr>dflt := Default (VStr ''''), max_length := Some 255\<rparr>,
      (Field ''preferred_income_min'' (POptional PDecimal))
        \<lparr>dflt := Default VNone, decimal_places := Some 2\<rparr>,
      (Field ''preferred_height_min'' (POptional PInt))\<lparr>dflt := Default VNone\<rparr>,
      (Field ''preferred_height_max'' (POptional PInt))\<lparr>dflt := Default VNone\<rparr>,
      (Field ''marital_status_acceptable'' (PList PStr))
        \<lparr>dflt := Default (VList []), sa_column := Some JSON\<rparr>,
      (Field ''additional_requirements'' PStr)
        \<lparr>dflt := Default (VStr ''''), max_length := Some 1000\<rparr>,
      (Field ''created_at'' PDatetime)\<lparr>dflt := DefaultFactory utcnow\<rparr>],
    relationships = [
      Relationship ''husband_preferences'' (PList (PModel ''MarriageLetter''))
        ''husband_preferences_obj'' ''[MarriageLetter.husband_preferences_id]'',
      Relationship ''wife_preferences'' (PList (PModel ''MarriageLetter''))
        ''wife_preferences_obj'' ''[MarriageLetter.wife_preferences_id]'']\<rparr>"

definition FamilyBackground :: model where
  "FamilyBackground = \<lparr>cls_name = ''FamilyBackground'', table = True,
    tablename = Some ''family_backgrounds'',
    model_fields = [
      (Field ''id'' (POptional PInt))\<lparr>dflt := Default VNone, primary_key := True\<rparr>,
      (Field ''family_origin'' PStr)\<lparr>max_length := Some 255\<rparr>,
      (Field ''ancestral_home'' PStr)\<lparr>max_length := Some 255\<rparr>,
      (Field ''family_traditions'' PStr)\<lparr>dflt := Default (VStr ''''), max_length := Some 1000\<rparr>,
      (Field ''social_status'' PStr)\<lparr>dflt := Default (VStr ''''), max_length := Some 255\<rparr>,
      (Field ''family_values'' PStr)\<lparr>dflt := Default (VStr ''''), max_length := Some 1000\<rparr>,
      (Field ''number_of_siblings'' PInt)\<lparr>dflt := Default (VInt 0)\<rparr>,
      (Field ''siblings_details'' PStr)\<lparr>dflt := Default (VStr ''''), max_length := Some 1000\<rparr>,
      (Field ''family_income_range'' PStr)
        \<lparr>dflt := Default (VStr ''''), max_length := Some 100\<rparr>,
      (Field ''property_details'' PStr)\<lparr>dflt := Default (VStr ''''), max_length := Some 500\<rparr>,
      (Field ''family_reputation'' PStr)\<lparr>dflt := Default (VStr ''''), max_length := Some 500\<rparr>,
      (Field ''created_at'' PDatetime)\<lparr>dflt := DefaultFactory utcnow\<rparr>],
    relationships = [
      Relationship ''husband_families'' (PList (PModel ''MarriageLetter''))
        ''husband_family'' ''[MarriageLetter.husband_family_id]'',
      Relationship ''wife_families'' (PList (PModel ''MarriageLetter''))
        ''wife_family'' ''[MarriageLetter.wife_family_id]'']\<rparr>"

definition MarriageLetter :: model where
  "MarriageLetter = \<lparr>cls_name = ''MarriageLetter'', table = True,
    tablename = Some ''marriage_letters'',
    model_fields = [
      (Field ''id'' (POptional PInt))\<lparr>dflt := Default VNone, primary_key := True\<rparr>,
      Field ''letter_type'' (PEnum LetterTypeE),
      (Field ''reference_number'' PStr)\<lparr>unique := True, max_length := Some 50\<rparr>,
      (Field ''husband_id'' PInt)\<lparr>foreign_key := Some ''persons.id''\<rparr>,
      (Field ''husband_father_id'' (POptional PInt))
        \<lparr>dflt := Default VNone, foreign_key := Some ''persons.id''\<rparr>,
      (Field ''husband_mother_id'' (POptional PInt))
        \<lparr>dflt := Default VNone, foreign_key := Some ''persons.id''\<rparr>,
      (Field ''husband_marital_status'' (PEnum MaritalStatusE))
        \<lparr>dflt := Default (VEnum (OfMaritalStatus SINGLE))\<rparr>,
      (Field ''husband_family_id'' (POptional PInt))
        \<lparr>dflt := Default VNone, foreign_key := Some ''family_backgrounds.id''\<rparr>,
      (Field ''husband_preferences_id'' (POptional PInt))
        \<lparr>dflt := Default VNone, foreign_key := Some ''marriage_preferences.id''\<rparr>,
      (Field ''wife_id'' PInt)\<lparr>foreign_key := Some ''persons.id''\<rparr>,
      (Field ''wife_father_id'' (POptional PInt))
        \<lparr>dflt := Default VNone, foreign_key := Some ''persons.id''\<rparr>,
      (Field ''wife_mother_id'' (POptional PInt))
        \<lparr>dflt := Default VNone, foreign_key := Some ''persons.id''\<rparr>,
      (Field ''wife_marital_status'' (PEnum MaritalStatusE))
        \<lparr>dflt := Default (VEnum (OfMaritalStatus SINGLE))\<rparr>,
      (Field ''wife_family_id'' (POptional PInt))
        \<lparr>dflt := Default VNone, foreign_key := Some ''family_backgrounds.id''\<rparr>,
      (Field ''wife_preferences_id'' (POptional PInt))
        \<lparr>dflt := Default VNone, foreign_key := Some ''marriage_preferences.id''\<rparr>,
      (Field ''purpose'' PStr)\<lparr>max_length := Some 500\<rparr>,
      (Field ''special_requests'' PStr)\<lparr>dflt := Default (VStr ''''), max_length := Some 1000\<rparr>,
      (Field ''contact_person'' PStr)\<lparr>max_length := Some 255\<rparr>,
      (Field ''contact_phone'' PStr)\<lparr>max_length := Some 20\<rparr>,
      (Field ''contact_email'' PStr)\<lparr>dflt := Default (VStr ''''), max_length := Some 255\<rparr>,
      (Field ''is_printed'' PBool)\<lparr>dflt := Default (VBool False)\<rparr>,
      (Field ''print_date'' (POptional PDatetime))\<lparr>dflt := Default VNone\<rparr>,
      (Field ''created_at'' PDatetime)\<lparr>dflt := DefaultFactory utcnow\<rparr>,
      (Field ''updated_at'' PDatetime)\<lparr>dflt := DefaultFactory utcnow\<rparr>,
      (Field ''custom_fields'' PDictStrAny)\<lparr>dflt := Default (VDict []), sa_column := Some JSON\<rparr>],
    relationships = [
      Relationship ''husband'' (PModel ''Person'')
        ''as_husband_letters'' ''[MarriageLetter.husband_id]'',
      Relationship ''wife'' (PModel ''Person'')
        ''as_wife_letters'' ''[MarriageLetter.wife_id]'',
      Relationship ''husband_father'' (POptional (PModel ''Person''))
        ''as_husband_father_letters'' ''[MarriageLetter.husband_father_id]'',
      Relationship ''husband_mother'' (POptional (PModel ''Person''))
        ''as_husband_mother_letters'' ''[MarriageLetter.husband_mother_id]'',
      Relationship ''wife_father'' (POptional (PModel ''Person''))
        ''as_wife_father_letters'' ''[MarriageLetter.wife_father_id]'',
      Relationship ''wife_mother'' (POptional (PModel ''Person''))
        ''as_wife_mother_letters'' ''[MarriageLetter.wife_mother_id]'',
      Relationship ''husband_family'' (POptional (PModel ''FamilyBackground''))
        ''husband_families'' ''[MarriageLetter.husband_family_id]'',
      Relationship ''wife_family'' (POptional (PModel ''FamilyBackground''))
        ''wife_families'' ''[MarriageLetter.wife_family_id]'',
      Relationship ''husband_preferences_obj'' (POptional (PModel ''MarriagePreferences''))
        ''husband_preferences'' ''[MarriageLetter.husband_preferences_id]'',
      Relationship ''wife_preferences_obj'' (POptional (PModel ''MarriagePreferences''))
        ''wife_preferences'' ''[MarriageLetter.wife_preferences_id]'']\<rparr>"

section \<open>Non-persistent schemas\<close>

definition PersonCreate :: model where
  "PersonCreate = \<lparr>cls_name = ''PersonCreate'', table = False, tablename = None,
    model_fields = [
      (Field ''full_name'' PStr)\<lparr>max_length := Some 255\<rparr>,
      Field ''date_of_birth'' PDate,
      (Field ''place_of_birth'' PStr)\<lparr>max_length := Some 255\<rparr>,
      (Field ''nationality'' PStr)\<lparr>max_length := Some 100\<rparr>,
      Field ''religion'' (PEnum ReligionE),
      (Field ''occupation'' PStr)\<lparr>max_length := Some 255\<rparr>,
      Field ''education_level'' (PEnum EducationLevelE),
      (Field ''institution_name'' PStr)\<lparr>dflt := Default (VStr ''''), max_length := Some 255\<rparr>,
      (Field ''graduation_year'' (POptional PInt))\<lparr>dflt := Default VNone\<rparr>,
      (Field ''monthly_income'' (POptional PDecimal))
        \<lparr>dflt := Default VNone, decimal_places := Some 2\<rparr>,
      (Field ''address'' PStr)\<lparr>max_length := Some 500\<rparr>,
      (Field ''phone_number'' PStr)\<lparr>max_length := Some 20\<rparr>,
      (Field ''email'' PStr)\<lparr>dflt := Default (VStr ''''), max_length := Some 255\<rparr>,
      (Field ''height_cm'' (POptional PInt))\<lparr>dflt := Default VNone\<rparr>,
      (Field ''weight_kg'' (POptional PDecimal))
        \<lparr>dflt := Default VNone, decimal_places := Some 1\<rparr>,
      (Field ''complexion'' PStr)\<lparr>dflt := Default (VStr ''''), max_length := Some 100\<rparr>,
      (Field ''physical_disabilities'' PStr)
        \<lparr>dflt := Default (VStr ''''), max_length := Some 500\<rparr>,
      (Field ''health_conditions'' PStr)\<lparr>dflt := Default (VStr ''''), max_length := Some 500\<rparr>,
      (Field ''hobbies'' PStr)\<lparr>dflt := Default (VStr ''''), max_length := Some 500\<rparr>,
      (Field ''additional_notes'' PStr)\<lparr>dflt := Default (VStr ''''), max_length := Some 1000\<rparr>],
    relationships = []\<rparr>"

definition MarriagePreferencesCreate :: model where
  "MarriagePreferencesCreate = \<lparr>cls_name = ''MarriagePreferencesCreate'', table = False,
    tablename = None,
    model_fields = [
      (Field ''preferred_age_min'' (POptional PInt))\<lparr>dflt := Default VNone\<rparr>,
      (Field ''preferred_age_max'' (POptional PInt))\<lparr>dflt := Default VNone\<rparr>,
      (Field ''preferred_education'' (POptional (PEnum EducationLevelE)))
        \<lparr>dflt := Default VNone\<rparr>,
      (Field ''preferred_occupation'' PStr)
        \<lparr>dflt := Default (VStr ''''), max_length := Some 255\<rparr>,
      (Field ''preferred_religion'' (POptional (PEnum ReligionE)))\<lparr>dflt := Default VNone\<rparr>,
      (Field ''preferred_nationality'' PStr)
        \<lparr>dflt := Default (VStr ''''), max_length := Some 100\<rparr>,
      (Field ''preferred_location'' PStr)
        \<lparr>dflt := Default (VStr ''''), max_length := Some 255\<rparr>,
      (Field ''preferred_income_min'' (POptional PDecimal))
        \<lparr>dflt := Default VNone, decimal_places := Some 2\<rparr>,
      (Field ''preferred_height_min'' (POptional PInt))\<lparr>dflt := Default VNone\<rparr>,
      (Field ''preferred_height_max'' (POptional PInt))\<lparr>dflt := Default VNone\<rparr>,
      (Field ''marital_status_acceptable'' (PList PStr))\<lparr>dflt := Default (VList [])\<rparr>,
      (Field ''additional_requirements'' PStr)
        \<lparr>dflt := Default (VStr ''''), max_length := Some 1000\<rparr>],
    relationships = []\<rparr>"

definition FamilyBackgroundCreate :: model where
  "FamilyBackgroundCreate = \<lparr>cls_name = ''FamilyBackgroundCreate'', table = False,
    tablename = None,
    model_fields = [
      (Field ''family_origin'' PStr)\<lparr>max_length := Some 255\<rparr>,
      (Field ''ancestral_home'' PStr)\<lparr>max_length := Some 255\<rparr>,
      (Field ''family_traditions'' PStr)\<lparr>dflt := Default (VStr ''''), max_length := Some 1000\<rparr>,
      (Field ''social_status'' PStr)\<lparr>dflt := Default (VStr ''''), max_length := Some 255\<rparr>,
      (Field ''family_values'' PStr)\<lparr>dflt := Default (VStr ''''), max_length := Some 1000\<rparr>,
      (Field ''number_of_siblings'' PInt)\<lparr>dflt := Default (VInt 0)\<rparr>,
      (Field ''siblings_details'' PStr)\<lparr>dflt := Default (VStr ''''), max_length := Some 1000\<rparr>,
      (Field ''family_income_range'' PStr)
        \<lparr>dflt := Default (VStr ''''), max_length := Some 100\<rparr>,
      (Field ''property_details'' PStr)\<lparr>dflt := Default (VStr ''''), max_length := Some 500\<rparr>,
      (Field ''family_reputation'' PStr)\<lparr>dflt := Default (VStr ''''), max_length := Some 500\<rparr>],
    relationships = []\<rparr>"

definition MarriageLetterCreate :: model where
  "MarriageLetterCreate = \<lparr>cls_name = ''MarriageLetterCreate'', table = False,
    tablename = None,
    model_fields = [
      Field ''letter_type'' (PEnum LetterTypeE),
      Field ''husband_data'' (PModel ''PersonCreate''),
      (Field ''husband_father_data'' (POptional (PModel ''PersonCreate'')))
        \<lparr>dflt := Default VNone\<rparr>,
      (Field ''husband_mother_data'' (POptional (PModel ''PersonCreate'')))
        \<lparr>dflt := Default VNone\<rparr>,
      (Field ''husband_marital_status'' (PEnum MaritalStatusE))
        \<lparr>dflt := Default (VEnum (OfMaritalStatus SINGLE))\<rparr>,
      (Field ''husband_family_data'' (POptional (PModel ''FamilyBackgroundCreate'')))
        \<lparr>dflt := Default VNone\<rparr>,
      (Field ''husband_preferences_data'' (POptional (PModel ''MarriagePreferencesCreate'')))
        \<lparr>dflt := Default VNone\<rparr>,
      Field ''wife_data'' (PModel ''PersonCreate''),
      (Field ''wife_father_data'' (POptional (PModel ''PersonCreate'')))
        \<lparr>dflt := Default VNone\<rparr>,
      (Field ''wife_mother_data'' (POptional (PModel ''PersonCreate'')))
        \<lparr>dflt := Default VNone\<rparr>,
      (Field ''wife_marital_status'' (PEnum MaritalStatusE))
        \<lparr>dflt := Default (VEnum (OfMaritalStatus SINGLE))\<rparr>,
      (Field ''wife_family_data'' (POptional (PModel ''FamilyBackgroundCreate'')))
        \<lparr>dflt := Default VNone\<rparr>,
      (Field ''wife_preferences_data'' (POptional (PModel ''MarriagePreferencesCreate'')))
        \<lparr>dflt := Default VNone\<rparr>,
      (Field ''purpose'' PStr)\<lparr>max_length := Some 500\<rparr>,
      (Field ''special_requests'' PStr)\<lparr>dflt := Default (VStr ''''), max_length := Some 1000\<rparr>,
      (Field ''contact_person'' PStr)\<lparr>max_length := Some 255\<rparr>,
      (Field ''contact_phone'' PStr)\<lparr>max_length := Some 20\<rparr>,
      (Field ''contact_email'' PStr)\<lparr>dflt := Default (VStr ''''), max_length := Some 255\<rparr>,
      (Field ''custom_fields'' PDictStrAny)\<lparr>dflt := Default (VDict [])\<rparr>],
    relationships = []\<rparr>"

definition MarriageLetterResponse :: model where
  "MarriageLetterResponse = \<lparr>cls_name = ''MarriageLetterResponse'', table = False,
    tablename = None,
    model_fields = [
      Field ''id'' PInt,
      Field ''letter_type'' (PEnum LetterTypeE),
      Field ''reference_number'' PStr,
      Field ''purpose'' PStr,
      Field ''contact_person'' PStr,
      Field ''contact_phone'' PStr,
      Field ''contact_email'' PStr,
      Field ''is_printed'' PBool,
      Field ''print_date'' (POptional PDatetime),
      Field ''created_at'' PDatetime,
      Field ''updated_at'' PDatetime,
      Field ''husband_name'' PStr,
      Field ''wife_name'' PStr],
    relationships = []\<rparr>"

definition LetterPrintRequest :: model where
  "LetterPrintRequest = \<lparr>cls_name = ''LetterPrintRequest'', table = False, tablename = None,
    model_fields = [
      Field ''letter_id'' PInt,
      (Field ''print_format'' PStr)\<lparr>dflt := Default (VStr ''pdf''), max_length := Some 10\<rparr>,
      (Field ''include_photos'' PBool)\<lparr>dflt := Default (VBool False)\<rparr>,
      (Field ''letterhead'' PStr)\<lparr>dflt := Default (VStr ''''), max_length := Some 255\<rparr>,
      (Field ''additional_notes'' PStr)\<lparr>dflt := Default (VStr ''''), max_length := Some 500\<rparr>],
    relationships = []\<rparr>"

definition LetterSummary :: model where
  "LetterSummary = \<lparr>cls_name = ''LetterSummary'', table = False, tablename = None,
    model_fields = [
      Field ''id'' PInt,
      Field ''letter_type'' (PEnum LetterTypeE),
      Field ''reference_number'' PStr,
      Field ''husband_name'' PStr,
      Field ''wife_name'' PStr,
      Field ''created_at'' PDatetime,
      Field ''is_printed'' PBool],
    relationships = []\<rparr>"

text \<open>The \<^verbatim>\<open>SQLModel\<close> classes of the file in the order of their definition.\<close>

definition all_models :: "model list" where
  "all_models = [Person, MarriagePreferences, FamilyBackground, MarriageLetter,
     PersonCreate, MarriagePreferencesCreate, FamilyBackgroundCreate, MarriageLetterCreate,
     MarriageLetterResponse, LetterPrintRequest, LetterSummary]"

text \<open>The classes declared with \<^verbatim>\<open>table=True\<close>: the entity types stored in the database.\<close>

definition persistent_models :: "model list" where
  "persistent_models = filter table all_models"

section \<open>Foreign keys\<close>

text \<open>
  \<^verbatim>\<open>foreign_key="persons.id"\<close> names a table and a column of it: the table is the text
  before the dot.
\<close>

definition fk_table :: "string \<Rightarrow> string" where
  "fk_table k = takeWhile (\<lambda>c. c \<noteq> CHR ''.'') k"

text \<open>The fields of \<open>m\<close> that declare a foreign key to the table of \<open>target\<close>.\<close>

definition fks_to :: "model \<Rightarrow> model \<Rightarrow> field_decl list" where
  "fks_to m target = filter
     (\<lambda>f. case foreign_key f of
        None \<Rightarrow> False
      | Some k \<Rightarrow> tablename target = Some (fk_table k))
     (model_fields m)"

definition fk_fields :: "model \<Rightarrow> field_decl list" where
  "fk_fields m = filter (\<lambda>f. foreign_key f \<noteq> None) (model_fields m)"

text \<open>
  The foreign-key graph of a list of classes: one edge per foreign-key field, from the
  table of the declaring class to the table the key names.
\<close>

definition fk_edges :: "model list \<Rightarrow> (string \<times> string) list" where
  "fk_edges ms = concat (map
     (\<lambda>m. case tablename m of
        None \<Rightarrow> []
      | Some t \<Rightarrow> concat (map
          (\<lambda>f. case foreign_key f of None \<Rightarrow> [] | Some k \<Rightarrow> [(t, fk_table k)])
          (model_fields m)))
     ms)"

definition fk_tables :: "model list \<Rightarrow> string list" where
  "fk_tables ms = remdups (concat (map (\<lambda>(a, b). [a, b]) (fk_edges ms)))"

text \<open>The classes whose table is the source or the target of a foreign key.\<close>

definition fk_entities :: "model list \<Rightarrow> model list" where
  "fk_entities ms = filter
     (\<lambda>m. case tablename m of None \<Rightarrow> False | Some t \<Rightarrow> t \<in> set (fk_tables ms))
     ms"

section \<open>Declared constraints\<close>

text \<open>
  What a field declaration constrains: \<open>Present\<close> for an annotation that is not
  \<^verbatim>\<open>Optional\<close>, and one constraint for each of \<^verbatim>\<open>max_length\<close>,
  \<^verbatim>\<open>primary_key\<close>, \<^verbatim>\<open>foreign_key\<close>, \<^verbatim>\<open>unique\<close> and \<^verbatim>\<open>decimal_places\<close>
  that the declaration gives.
\<close>

datatype constraint =
  Present | MaxLength nat | PrimaryKey | ForeignKey string | Unique | DecimalPlaces nat

fun is_optional :: "py_type \<Rightarrow> bool" where
  "is_optional (POptional t) = True"
| "is_optional t = False"

definition constraints :: "field_decl \<Rightarrow> constraint list" where
  "constraints f =
     (if is_optional (ftype f) then [] else [Present]) @
     (case max_length f of None \<Rightarrow> [] | Some n \<Rightarrow> [MaxLength n]) @
     (if primary_key f then [PrimaryKey] else []) @
     (case foreign_key f of None \<Rightarrow> [] | Some k \<Rightarrow> [ForeignKey k]) @
     (if unique f then [Unique] else []) @
     (case decimal_places f of None \<Rightarrow> [] | Some n \<Rightarrow> [DecimalPlaces n])"

fun presence_or_length :: "constraint \<Rightarrow> bool" where
  "presence_or_length Present = True"
| "presence_or_length (MaxLength n) = True"
| "presence_or_length c = False"

text \<open>
  The constraints of a list of classes that are neither presence nor a length limit, each
  with its class and field.
\<close>

definition other_constraints :: "model list \<Rightarrow> (string \<times> string \<times> constraint) list" where
  "other_constraints ms = concat (map
     (\<lambda>m. concat (map
        (\<lambda>f. map (\<lambda>c. (cls_name m, fname f, c))
           (filter (\<lambda>c. \<not> presence_or_length c) (constraints f)))
        (model_fields m)))
     ms)"

text \<open>The fields that declare a length limit on something that is not a \<^verbatim>\<open>str\<close>.\<close>

definition length_on_non_str :: "model list \<Rightarrow> (string \<times> string) list" where
  "length_on_non_str ms = concat (map
     (\<lambda>m. map (\<lambda>f. (cls_name m, fname f))
        (filter (\<lambda>f. max_length f \<noteq> None \<and> ftype f \<noteq> PStr) (model_fields m)))
     ms)"

section \<open>Mirrored shapes\<close>

text \<open>What two declarations of one field are compared on: name, type, default, length limit.\<close>

definition shape :: "field_decl \<Rightarrow> string \<times> py_type \<times> default_decl \<times> nat option" where
  "shape f = (fname f, ftype f, dflt f, max_length f)"

text \<open>The attributes of a class: its fields, then its relationships.\<close>

definition attributes :: "model \<Rightarrow> string list" where
  "attributes m = map fname (model_fields m) @ map rname (relationships m)"

text \<open>The fields of a persistent class other than \<^verbatim>\<open>id\<close> and \<^verbatim>\<open>created_at\<close>.\<close>

definition data_fields :: "model \<Rightarrow> field_decl list" where
  "data_fields m = filter (\<lambda>f. fname f \<notin> set [''id'', ''created_at'']) (model_fields m)"

definition typed_fields :: "model \<Rightarrow> (string \<times> py_type) list" where
  "typed_fields m = map (\<lambda>f. (fname f, ftype f)) (model_fields m)"

section \<open>Instances\<close>

text \<open>
  Keyword arguments and the attributes of an instance are association lists;
  \<open>map_of\<close> reads one.
\<close>

type_synonym kwargs = "(string \<times> py_val) list"

type_synonym obj = "(string \<times> py_val) list"

text \<open>
  \<^verbatim>\<open>isinstance\<close> against an annotation: \<^verbatim>\<open>bool\<close> is a subclass of \<^verbatim>\<open>int\<close>, the
  members of the \<^verbatim>\<open>(str, Enum)\<close> classes are \<^verbatim>\<open>str\<close>, and \<^verbatim>\<open>datetime\<close> is a subclass
  of \<^verbatim>\<open>date\<close>.
\<close>

fun has_type :: "py_type \<Rightarrow> py_val \<Rightarrow> bool" where
  "has_type PInt v = (case v of VInt i \<Rightarrow> True | VBool b \<Rightarrow> True | _ \<Rightarrow> False)"
| "has_type PStr v = (case v of VStr s \<Rightarrow> True | VEnum m \<Rightarrow> True | _ \<Rightarrow> False)"
| "has_type PBool v = (case v of VBool b \<Rightarrow> True | _ \<Rightarrow> False)"
| "has_type PDate v = (case v of VDate d \<Rightarrow> True | VDatetime d \<Rightarrow> True | _ \<Rightarrow> False)"
| "has_type PDatetime v = (case v of VDatetime d \<Rightarrow> True | _ \<Rightarrow> False)"
| "has_type PDecimal v = (case v of VDecimal c p \<Rightarrow> True | _ \<Rightarrow> False)"
| "has_type (PEnum c) v = (case v of VEnum m \<Rightarrow> m \<in> set (members c) | _ \<Rightarrow> False)"
| "has_type (POptional t) v = (v = VNone \<or> has_type t v)"
| "has_type (PList t) v = (case v of VList vs \<Rightarrow> list_all (has_type t) vs | _ \<Rightarrow> False)"
| "has_type PDictStrAny v = (case v of VDict kv \<Rightarrow> True | _ \<Rightarrow> False)"
| "has_type (PModel n) v = (case v of VObj n' kv \<Rightarrow> n = n' | _ \<Rightarrow> False)"

text \<open>An object that has every field of the class, each with a value of its annotation.\<close>

definition instance_of :: "model \<Rightarrow> obj \<Rightarrow> bool" where
  "instance_of m ob = list_all
     (\<lambda>f. case map_of ob (fname f) of None \<Rightarrow> False | Some v \<Rightarrow> has_type (ftype f) v)
     (model_fields m)"

text \<open>
  The clock: \<open>now n\<close> is what \<^verbatim>\<open>datetime.utcnow\<close> returns when it is called for the
  default of the field named \<open>n\<close>. Every field with a \<^verbatim>\<open>default_factory\<close> calls it on its
  own, so two fields of one object may get different readings; nothing is assumed about
  how the readings relate.
\<close>

type_synonym clock = "string \<Rightarrow> int"

text \<open>The value a field takes when the caller gives none.\<close>

definition default_value :: "clock \<Rightarrow> field_decl \<Rightarrow> py_val option" where
  "default_value now f =
     (case dflt f of
        Required \<Rightarrow> None
      | Default v \<Rightarrow> Some v
      | DefaultFactory utcnow \<Rightarrow> Some (VDatetime (now (fname f))))"

definition required_fields :: "model \<Rightarrow> string list" where
  "required_fields m = map fname (filter (\<lambda>f. dflt f = Required) (model_fields m))"

text \<open>
  Instantiating a \<^verbatim>\<open>table=True\<close> class, as the \<^verbatim>\<open>SQLModel\<close> base class does it (its
  code is not part of the repository): the keyword arguments are stored as given, without
  validation, a field without an argument takes the default its declaration gives, and a
  required field without an argument stays unset.
\<close>

definition table_construct :: "model \<Rightarrow> clock \<Rightarrow> kwargs \<Rightarrow> obj" where
  "table_construct m now kw = concat (map
     (\<lambda>f. case map_of kw (fname f) of
        Some v \<Rightarrow> [(fname f, v)]
      | None \<Rightarrow> (case default_value now f of None \<Rightarrow> [] | Some d \<Rightarrow> [(fname f, d)]))
     (model_fields m))"

section \<open>Validation\<close>

text \<open>
  Modelled from the spec: the function that validates the input of a schema is missing
  from the repository. The spec names it "standard schema validation (field length
  limits, enum membership, foreign-key referential integrity)" and leaves it to the
  framework the classes derive from (\<^verbatim>\<open>SQLModel\<close>). What is modelled here is what the
  declarations of \<^verbatim>\<open>app/models.py\<close> fix: a required field must be given, \<^verbatim>\<open>None\<close> is
  taken by an \<^verbatim>\<open>Optional\<close> annotation, a string is held against \<^verbatim>\<open>max_length\<close>, and a
  value for an enum field is looked up among the members of the class. Every other
  decision of the framework (the conversions between types, \<^verbatim>\<open>decimal_places\<close>, lists,
  dictionaries and nested schemas) is the parameter \<open>co\<close>, about which nothing is assumed.
\<close>

type_synonym conversion = "field_decl \<Rightarrow> py_type \<Rightarrow> py_val \<Rightarrow> py_val option"

fun check_value :: "conversion \<Rightarrow> field_decl \<Rightarrow> py_type \<Rightarrow> py_val \<Rightarrow> py_val option" where
  "check_value co f (POptional t) v = (if v = VNone then Some VNone else check_value co f t v)"
| "check_value co f PStr v =
     (case v of
        VStr s \<Rightarrow>
          (case max_length f of
             None \<Rightarrow> Some (VStr s)
           | Some n \<Rightarrow> if length s \<le> n then Some (VStr s) else None)
      | _ \<Rightarrow> co f PStr v)"
| "check_value co f (PEnum c) v =
     (case v of
        VStr s \<Rightarrow> map_option VEnum (enum_lookup c s)
      | VEnum m \<Rightarrow> map_option VEnum (enum_lookup c (member_value m))
      | _ \<Rightarrow> None)"
| "check_value co f PInt v = (case v of VInt i \<Rightarrow> Some (VInt i) | _ \<Rightarrow> co f PInt v)"
| "check_value co f PBool v = (case v of VBool b \<Rightarrow> Some (VBool b) | _ \<Rightarrow> co f PBool v)"
| "check_value co f PDate v = (case v of VDate d \<Rightarrow> Some (VDate d) | _ \<Rightarrow> co f PDate v)"
| "check_value co f PDatetime v =
     (case v of VDatetime d \<Rightarrow> Some (VDatetime d) | _ \<Rightarrow> co f PDatetime v)"
| "check_value co f t v = co f t v"

datatype error = Missing string | Invalid string

text \<open>
  Modelled from the spec: one field of the missing validation function. A value that is
  given is checked, a field that is not given takes its default, and a required field that
  is not given is an error.
\<close>

definition validate_field :: "conversion \<Rightarrow> clock \<Rightarrow> kwargs \<Rightarrow> field_decl \<Rightarrow> error + py_val" where
  "validate_field co now kw f =
     (case map_of kw (fname f) of
        Some v \<Rightarrow>
          (case check_value co f (ftype f) v of
             None \<Rightarrow> Inl (Invalid (fname f))
           | Some v' \<Rightarrow> Inr v')
      | None \<Rightarrow>
          (case default_value now f of
             None \<Rightarrow> Inl (Missing (fname f))
           | Some d \<Rightarrow> Inr d))"

definition field_errors :: "conversion \<Rightarrow> model \<Rightarrow> clock \<Rightarrow> kwargs \<Rightarrow> error list" where
  "field_errors co m now kw = concat (map
     (\<lambda>f. case validate_field co now kw f of Inl e \<Rightarrow> [e] | Inr v \<Rightarrow> [])
     (model_fields m))"

text \<open>
  Modelled from the spec: the missing validation function on a whole input. It raises one
  validation error that holds the errors of all fields (\<open>Inl\<close>), or returns the object.
\<close>

definition validate :: "conversion \<Rightarrow> model \<Rightarrow> clock \<Rightarrow> kwargs \<Rightarrow> error list + obj" where
  "validate co m now kw =
     (if field_errors co m now kw = []
      then Inr (concat (map
        (\<lambda>f. case validate_field co now kw f of Inl e \<Rightarrow> [] | Inr v \<Rightarrow> [(fname f, v)])
        (model_fields m)))
      else Inl (field_errors co m now kw))"

definition succeeds :: "error list + obj \<Rightarrow> bool" where
  "succeeds r = (case r of Inl es \<Rightarrow> False | Inr ob \<Rightarrow> True)"

text \<open>
  \<^verbatim>\<open>Cls(**kw)\<close>, the constructor every class inherits from \<^verbatim>\<open>SQLModel\<close>: a
  \<^verbatim>\<open>table=True\<close> class is instantiated without validation, any other class validates its
  input.
\<close>

definition construct :: "conversion \<Rightarrow> model \<Rightarrow> clock \<Rightarrow> kwargs \<Rightarrow> error list + obj" where
  "construct co m now kw =
     (if table m then Inr (table_construct m now kw) else validate co m now kw)"

text \<open>A framework that converts nothing: whatever the declarations do not decide is refused.\<close>

definition no_conversion :: conversion where
  "no_conversion f t v = None"

text \<open>Whether the field \<open>n\<close> of a class takes the value \<open>v\<close>.\<close>

definition accepts :: "conversion \<Rightarrow> model \<Rightarrow> string \<Rightarrow> py_val \<Rightarrow> bool" where
  "accepts co m n v =
     (case find (\<lambda>f. fname f = n) (model_fields m) of
        None \<Rightarrow> False
      | Some f \<Rightarrow> check_value co f (ftype f) v \<noteq> None)"

text \<open>The \<^verbatim>\<open>str\<close> fields of a class that declare \<^verbatim>\<open>max_length\<close>, with their limits.\<close>

definition length_limits :: "model \<Rightarrow> (string \<times> nat) list" where
  "length_limits m = concat (map
     (\<lambda>f. case max_length f of
        None \<Rightarrow> []
      | Some n \<Rightarrow> if ftype f = PStr then [(fname f, n)] else [])
     (model_fields m))"

text \<open>Every string the input gives for a \<^verbatim>\<open>str\<close> field with a limit is within the limit.\<close>

definition within_limit :: "kwargs \<Rightarrow> field_decl \<Rightarrow> bool" where
  "within_limit kw f =
     (case max_length f of
        None \<Rightarrow> True
      | Some n \<Rightarrow>
          (case map_of kw (fname f) of
             Some (VStr s) \<Rightarrow> ftype f \<noteq> PStr \<or> length s \<le> n
           | _ \<Rightarrow> True))"

definition within_limits :: "model \<Rightarrow> kwargs \<Rightarrow> bool" where
  "within_limits m kw = list_all (within_limit kw) (model_fields m)"

text \<open>
  The input \<open>kw'\<close> differs from \<open>kw\<close> at most in the strings it gives for \<^verbatim>\<open>str\<close> fields
  with a limit.
\<close>

definition same_or_limited_str :: "kwargs \<Rightarrow> kwargs \<Rightarrow> field_decl \<Rightarrow> bool" where
  "same_or_limited_str kw kw' f =
     (map_of kw' (fname f) = map_of kw (fname f) \<or>
      (ftype f = PStr \<and> max_length f \<noteq> None \<and>
       (case map_of kw' (fname f) of Some (VStr s) \<Rightarrow> True | _ \<Rightarrow> False)))"

definition differs_in_limited_strs :: "model \<Rightarrow> kwargs \<Rightarrow> kwargs \<Rightarrow> bool" where
  "differs_in_limited_strs m kw kw' = list_all (same_or_limited_str kw kw') (model_fields m)"

text \<open>The Create schemas.\<close>

definition create_schemas :: "model list" where
  "create_schemas =
     [PersonCreate, MarriagePreferencesCreate, FamilyBackgroundCreate, MarriageLetterCreate]"

section \<open>Inputs the theorems are evaluated on\<close>

text \<open>The keyword arguments of a letter that gives its seven required fields and no other.\<close>

definition letter_input :: kwargs where
  "letter_input =
     [(''letter_type'', VEnum (OfLetterType N1)), (''reference_number'', VStr ''R-1''),
      (''husband_id'', VInt 1), (''wife_id'', VInt 2), (''purpose'', VStr ''p''),
      (''contact_person'', VStr ''c''), (''contact_phone'', VStr ''1'')]"

text \<open>
  The keyword arguments of a person that gives the nine required fields of
  \<^verbatim>\<open>PersonCreate\<close>, with the name and the religion left open.
\<close>

definition person_input :: "string \<Rightarrow> string \<Rightarrow> kwargs" where
  "person_input name rel =
     [(''full_name'', VStr name), (''date_of_birth'', VDate 0), (''place_of_birth'', VStr ''B''),
      (''nationality'', VStr ''C''), (''religion'', VStr rel), (''occupation'', VStr ''D''),
      (''education_level'', VStr ''bachelor''), (''address'', VStr ''E''),
      (''phone_number'', VStr ''1'')]"

text \<open>An instance of \<^verbatim>\<open>MarriageLetterResponse\<close>.\<close>

definition response_example :: obj where
  "response_example =
     [(''id'', VInt 7), (''letter_type'', VEnum (OfLetterType N2)),
      (''reference_number'', VStr ''R-7''), (''purpose'', VStr ''p''),
      (''contact_person'', VStr ''c''), (''contact_phone'', VStr ''1''),
      (''contact_email'', VStr ''''), (''is_printed'', VBool True),
      (''print_date'', VNone), (''created_at'', VDatetime 1), (''updated_at'', VDatetime 2),
      (''husband_name'', VStr ''H''), (''wife_name'', VStr ''W'')]"


text \<open>A clock that reads 0 at every call.\<close>

definition epoch :: clock where
  "epoch n = 0"

section \<open>Facts about the declarations\<close>

lemmas decl_defs = Field_def Relationship_def

lemmas persistent_defs = Person_def MarriagePreferences_def FamilyBackground_def
  MarriageLetter_def

lemmas schema_defs = PersonCreate_def MarriagePreferencesCreate_def FamilyBackgroundCreate_def
  MarriageLetterCreate_def MarriageLetterResponse_def LetterPrintRequest_def LetterSummary_def

lemma persistent_models_eq:
  "persistent_models = [Person, MarriagePreferences, FamilyBackground, MarriageLetter]"
  by (simp add: persistent_models_def all_models_def persistent_defs schema_defs)

lemma fk_edges_all:
  "fk_edges all_models =
     [(''marriage_letters'', ''persons''), (''marriage_letters'', ''persons''),
      (''marriage_letters'', ''persons''), (''marriage_letters'', ''family_backgrounds''),
      (''marriage_letters'', ''marriage_preferences''), (''marriage_letters'', ''persons''),
      (''marriage_letters'', ''persons''), (''marriage_letters'', ''persons''),
      (''marriage_letters'', ''family_backgrounds''),
      (''marriage_letters'', ''marriage_preferences'')]"
  by (simp add: fk_edges_def all_models_def fk_table_def persistent_defs schema_defs decl_defs)

lemma fk_tables_all:
  "fk_tables all_models =
     [''persons'', ''family_backgrounds'', ''marriage_letters'', ''marriage_preferences'']"
  by (simp add: fk_tables_def fk_edges_all)

lemma fk_entities_all:
  "fk_entities all_models = [Person, MarriagePreferences, FamilyBackground, MarriageLetter]"
  unfolding fk_entities_def fk_tables_all
  by (simp add: all_models_def persistent_defs schema_defs)

text \<open>
  C1. \<^verbatim>\<open>MarriageLetter\<close> declares exactly six foreign keys to the table of \<^verbatim>\<open>Person\<close>
  (husband, his father and mother, wife, her father and mother), exactly two to the table
  of \<^verbatim>\<open>FamilyBackground\<close> and exactly two to the table of \<^verbatim>\<open>MarriagePreferences\<close>. Each
  holds one integer reference, the ten fields have ten different names, and the class has
  no other foreign key.
\<close>

theorem marriage_letter_foreign_keys:
  "map (\<lambda>f. (fname f, ftype f)) (fks_to MarriageLetter Person) =
     [(''husband_id'', PInt), (''husband_father_id'', POptional PInt),
      (''husband_mother_id'', POptional PInt), (''wife_id'', PInt),
      (''wife_father_id'', POptional PInt), (''wife_mother_id'', POptional PInt)]
   \<and> map (\<lambda>f. (fname f, ftype f)) (fks_to MarriageLetter FamilyBackground) =
     [(''husband_family_id'', POptional PInt), (''wife_family_id'', POptional PInt)]
   \<and> map (\<lambda>f. (fname f, ftype f)) (fks_to MarriageLetter MarriagePreferences) =
     [(''husband_preferences_id'', POptional PInt), (''wife_preferences_id'', POptional PInt)]
   \<and> distinct (map fname (fk_fields MarriageLetter))
   \<and> length (fk_fields MarriageLetter) = 10"
  by (simp add: fks_to_def fk_fields_def fk_table_def persistent_defs decl_defs)

text \<open>
  C2, as the claim states it: no persistent field declares anything but presence and a
  length limit, and none is unique. The declaration of
  \<^verbatim>\<open>MarriageLetter.reference_number\<close> refutes it: \<^verbatim>\<open>Field(unique=True, max_length=50)\<close>.
\<close>

theorem reference_number_is_unique:
  "other_constraints persistent_models \<noteq> []
   \<and> (''MarriageLetter'', ''reference_number'', Unique) \<in> set (other_constraints persistent_models)"
  unfolding persistent_models_eq
  by (simp add: other_constraints_def constraints_def persistent_defs decl_defs)

text \<open>
  C2, amended. Beyond presence and length limits the persistent classes declare exactly
  these constraints: a primary key on the \<^verbatim>\<open>id\<close> of each class, the ten foreign keys of
  \<^verbatim>\<open>MarriageLetter\<close>, a number of decimal places on three decimal fields, and one
  uniqueness constraint, on \<^verbatim>\<open>MarriageLetter.reference_number\<close>. No other field is unique,
  and every length limit is on a \<^verbatim>\<open>str\<close> field.
\<close>

theorem persistent_constraints:
  "other_constraints persistent_models =
     [(''Person'', ''id'', PrimaryKey),
      (''Person'', ''monthly_income'', DecimalPlaces 2),
      (''Person'', ''weight_kg'', DecimalPlaces 1),
      (''MarriagePreferences'', ''id'', PrimaryKey),
      (''MarriagePreferences'', ''preferred_income_min'', DecimalPlaces 2),
      (''FamilyBackground'', ''id'', PrimaryKey),
      (''MarriageLetter'', ''id'', PrimaryKey),
      (''MarriageLetter'', ''reference_number'', Unique),
      (''MarriageLetter'', ''husband_id'', ForeignKey ''persons.id''),
      (''MarriageLetter'', ''husband_father_id'', ForeignKey ''persons.id''),
      (''MarriageLetter'', ''husband_mother_id'', ForeignKey ''persons.id''),
      (''MarriageLetter'', ''husband_family_id'', ForeignKey ''family_backgrounds.id''),
      (''MarriageLetter'', ''husband_preferences_id'', ForeignKey ''marriage_preferences.id''),
      (''MarriageLetter'', ''wife_id'', ForeignKey ''persons.id''),
      (''MarriageLetter'', ''wife_father_id'', ForeignKey ''persons.id''),
      (''MarriageLetter'', ''wife_mother_id'', ForeignKey ''persons.id''),
      (''MarriageLetter'', ''wife_family_id'', ForeignKey ''family_backgrounds.id''),
      (''MarriageLetter'', ''wife_preferences_id'', ForeignKey ''marriage_preferences.id'')]
   \<and> length_on_non_str persistent_models = []"
  unfolding persistent_models_eq
  by (simp add: other_constraints_def length_on_non_str_def constraints_def persistent_defs
      decl_defs)

text \<open>
  C3. Each of \<^verbatim>\<open>PersonCreate\<close>, \<^verbatim>\<open>FamilyBackgroundCreate\<close> and
  \<^verbatim>\<open>MarriagePreferencesCreate\<close> declares the fields of its persistent class other than
  \<^verbatim>\<open>id\<close> and \<^verbatim>\<open>created_at\<close>, in the same order and with the same name, type, default
  and length limit, and its attributes are those of the persistent class without
  \<^verbatim>\<open>id\<close>, \<^verbatim>\<open>created_at\<close> and the relationships.
\<close>

theorem create_mirrors_persistent:
  "map shape (model_fields PersonCreate) = map shape (data_fields Person)
   \<and> attributes PersonCreate =
       filter (\<lambda>n. n \<notin> set ([''id'', ''created_at''] @ map rname (relationships Person)))
         (attributes Person)
   \<and> map shape (model_fields FamilyBackgroundCreate) = map shape (data_fields FamilyBackground)
   \<and> attributes FamilyBackgroundCreate =
       filter
         (\<lambda>n. n \<notin> set ([''id'', ''created_at''] @ map rname (relationships FamilyBackground)))
         (attributes FamilyBackground)
   \<and> map shape (model_fields MarriagePreferencesCreate) =
       map shape (data_fields MarriagePreferences)
   \<and> attributes MarriagePreferencesCreate =
       filter
         (\<lambda>n. n \<notin> set ([''id'', ''created_at''] @ map rname (relationships MarriagePreferences)))
         (attributes MarriagePreferences)"
  by (simp add: shape_def data_fields_def attributes_def persistent_defs schema_defs decl_defs)

text \<open>
  C4, as the claim states it: six entity types take part in the foreign-key graph. The
  file declares four \<^verbatim>\<open>table=True\<close> classes, and those four are the classes the
  foreign keys connect.
\<close>

theorem entity_types_not_six:
  "length (fk_entities all_models) \<noteq> 6 \<and> length persistent_models \<noteq> 6"
  by (simp add: fk_entities_all persistent_models_eq)

text \<open>
  C4, amended. The foreign keys connect exactly four entity types, \<^verbatim>\<open>Person\<close>,
  \<^verbatim>\<open>MarriagePreferences\<close>, \<^verbatim>\<open>FamilyBackground\<close> and \<^verbatim>\<open>MarriageLetter\<close>, which are all
  the persistent classes of the file; every foreign key goes from the table of
  \<^verbatim>\<open>MarriageLetter\<close> to the table of one of the other three.
\<close>

theorem four_entity_types:
  "fk_entities all_models = [Person, MarriagePreferences, FamilyBackground, MarriageLetter]
   \<and> persistent_models = [Person, MarriagePreferences, FamilyBackground, MarriageLetter]
   \<and> length (fk_entities all_models) = 4
   \<and> set (fk_edges all_models) =
       {(''marriage_letters'', ''persons''), (''marriage_letters'', ''family_backgrounds''),
        (''marriage_letters'', ''marriage_preferences'')}"
  by (simp add: fk_entities_all persistent_models_eq fk_edges_all insert_commute)

text \<open>
  C7. \<^verbatim>\<open>letter_id\<close> is the only required field of \<^verbatim>\<open>LetterPrintRequest\<close>; the declared
  defaults of the other four fields are \<^verbatim>\<open>"pdf"\<close>, \<^verbatim>\<open>False\<close>, \<^verbatim>\<open>""\<close> and \<^verbatim>\<open>""\<close>; and
  a request made from a \<^verbatim>\<open>letter_id\<close> alone exists and has \<^verbatim>\<open>print_format\<close>
  \<^verbatim>\<open>"pdf"\<close>, \<^verbatim>\<open>include_photos\<close> false, and the empty string as \<^verbatim>\<open>letterhead\<close> and
  as \<^verbatim>\<open>additional_notes\<close>.
\<close>

theorem letter_print_request_defaults:
  "required_fields LetterPrintRequest = [''letter_id'']
   \<and> map (\<lambda>f. (fname f, dflt f)) (model_fields LetterPrintRequest) =
       [(''letter_id'', Required), (''print_format'', Default (VStr ''pdf'')),
        (''include_photos'', Default (VBool False)), (''letterhead'', Default (VStr '''')),
        (''additional_notes'', Default (VStr ''''))]
   \<and> construct co LetterPrintRequest now [(''letter_id'', VInt n)] =
       Inr [(''letter_id'', VInt n), (''print_format'', VStr ''pdf''),
            (''include_photos'', VBool False), (''letterhead'', VStr ''''),
            (''additional_notes'', VStr '''')]"
  by (simp add: required_fields_def construct_def validate_def field_errors_def
      validate_field_def default_value_def schema_defs decl_defs)

section \<open>Instantiation with defaults\<close>

lemma table_construct_miss:
  "n \<notin> fname ` set fs \<Longrightarrow>
   map_of (concat (map
     (\<lambda>f. case map_of kw (fname f) of
        Some v \<Rightarrow> [(fname f, v)]
      | None \<Rightarrow> (case default_value now f of None \<Rightarrow> [] | Some d \<Rightarrow> [(fname f, d)]))
     fs)) n = None"
  by (induction fs) (auto split: option.splits)

lemma table_construct_hit:
  "distinct (map fname fs) \<Longrightarrow> f \<in> set fs \<Longrightarrow>
   map_of (concat (map
     (\<lambda>f. case map_of kw (fname f) of
        Some v \<Rightarrow> [(fname f, v)]
      | None \<Rightarrow> (case default_value now f of None \<Rightarrow> [] | Some d \<Rightarrow> [(fname f, d)]))
     fs)) (fname f) =
   (case map_of kw (fname f) of Some v \<Rightarrow> Some v | None \<Rightarrow> default_value now f)"
proof (induction fs)
  case Nil
  then show ?case by simp
next
  case (Cons g fs)
  show ?case
  proof (cases "f = g")
    case True
    with Cons.prems have "fname g \<notin> fname ` set fs" by simp
    then show ?thesis using True
      by (simp add: table_construct_miss split: option.splits)
  next
    case False
    with Cons.prems have in_fs: "f \<in> set fs" by simp
    with Cons.prems have "fname f \<noteq> fname g" by (metis distinct.simps(2) imageI list.simps(9) set_map)
    with Cons in_fs show ?thesis by (auto split: option.splits)
  qed
qed

lemma table_construct_lookup:
  "distinct (map fname (model_fields m)) \<Longrightarrow> f \<in> set (model_fields m) \<Longrightarrow>
   map_of (table_construct m now kw) (fname f) =
   (case map_of kw (fname f) of Some v \<Rightarrow> Some v | None \<Rightarrow> default_value now f)"
  unfolding table_construct_def by (rule table_construct_hit)

lemma marriage_letter_names_distinct: "distinct (map fname (model_fields MarriageLetter))"
  by (simp add: MarriageLetter_def decl_defs)

lemma required_marriage_letter:
  "required_fields MarriageLetter = [''letter_type'', ''reference_number'', ''husband_id'',
     ''wife_id'', ''purpose'', ''contact_person'', ''contact_phone'']"
  by (simp add: required_fields_def MarriageLetter_def decl_defs)

lemma table_construct_default:
  assumes "distinct (map fname (model_fields m))" and "map_of kw n = None"
  shows "map_of (table_construct m now kw) n =
    Option.bind (find (\<lambda>f. fname f = n) (model_fields m)) (default_value now)"
proof (cases "find (\<lambda>f. fname f = n) (model_fields m)")
  case None
  then have "n \<notin> fname ` set (model_fields m)" by (auto simp: find_None_iff)
  with None show ?thesis by (simp add: table_construct_def table_construct_miss)
next
  case (Some f)
  then have "f \<in> set (model_fields m)" and "fname f = n"
    by (auto simp: find_Some_iff)
  with table_construct_lookup [OF assms(1), of f now kw] Some assms(2) show ?thesis by simp
qed

text \<open>
  C9. A \<^verbatim>\<open>MarriageLetter\<close> made from exactly its required fields exists and has
  \<^verbatim>\<open>is_printed\<close> false, \<^verbatim>\<open>print_date\<close> \<^verbatim>\<open>None\<close>, both marital statuses
  \<^verbatim>\<open>SINGLE\<close>, and \<^verbatim>\<open>custom_fields\<close> the empty dictionary.
\<close>

theorem new_marriage_letter_defaults:
  assumes "set (map fst kw) = set (required_fields MarriageLetter)"
  shows "map (\<lambda>f. (fname f, dflt f))
       (filter
          (\<lambda>f. fname f \<in> set [''is_printed'', ''print_date'', ''husband_marital_status'',
             ''wife_marital_status'', ''custom_fields''])
          (model_fields MarriageLetter)) =
       [(''husband_marital_status'', Default (VEnum (OfMaritalStatus SINGLE))),
        (''wife_marital_status'', Default (VEnum (OfMaritalStatus SINGLE))),
        (''is_printed'', Default (VBool False)), (''print_date'', Default VNone),
        (''custom_fields'', Default (VDict []))]
     \<and> (\<exists>ob. construct co MarriageLetter now kw = Inr ob
     \<and> map_of ob ''is_printed'' = Some (VBool False)
     \<and> map_of ob ''print_date'' = Some VNone
     \<and> map_of ob ''husband_marital_status'' = Some (VEnum (OfMaritalStatus SINGLE))
     \<and> map_of ob ''wife_marital_status'' = Some (VEnum (OfMaritalStatus SINGLE))
     \<and> map_of ob ''custom_fields'' = Some (VDict []))"
proof -
  have decl: "map (\<lambda>f. (fname f, dflt f))
       (filter
          (\<lambda>f. fname f \<in> set [''is_printed'', ''print_date'', ''husband_marital_status'',
             ''wife_marital_status'', ''custom_fields''])
          (model_fields MarriageLetter)) =
       [(''husband_marital_status'', Default (VEnum (OfMaritalStatus SINGLE))),
        (''wife_marital_status'', Default (VEnum (OfMaritalStatus SINGLE))),
        (''is_printed'', Default (VBool False)), (''print_date'', Default VNone),
        (''custom_fields'', Default (VDict []))]"
    by (simp add: MarriageLetter_def decl_defs)
  have keys: "fst ` set kw = set (required_fields MarriageLetter)"
    using assms by simp
  have none: "map_of kw ''is_printed'' = None" "map_of kw ''print_date'' = None"
    "map_of kw ''husband_marital_status'' = None" "map_of kw ''wife_marital_status'' = None"
    "map_of kw ''custom_fields'' = None"
    by (simp_all add: map_of_eq_None_iff keys required_marriage_letter)
  have tab: "construct co MarriageLetter now kw = Inr (table_construct MarriageLetter now kw)"
    by (simp add: construct_def MarriageLetter_def)
  have 1: "map_of (table_construct MarriageLetter now kw) ''is_printed'' = Some (VBool False)"
    unfolding table_construct_default [OF marriage_letter_names_distinct none(1)]
    by (simp add: MarriageLetter_def decl_defs default_value_def)
  have 2: "map_of (table_construct MarriageLetter now kw) ''print_date'' = Some VNone"
    unfolding table_construct_default [OF marriage_letter_names_distinct none(2)]
    by (simp add: MarriageLetter_def decl_defs default_value_def)
  have 3: "map_of (table_construct MarriageLetter now kw) ''husband_marital_status'' =
      Some (VEnum (OfMaritalStatus SINGLE))"
    unfolding table_construct_default [OF marriage_letter_names_distinct none(3)]
    by (simp add: MarriageLetter_def decl_defs default_value_def)
  have 4: "map_of (table_construct MarriageLetter now kw) ''wife_marital_status'' =
      Some (VEnum (OfMaritalStatus SINGLE))"
    unfolding table_construct_default [OF marriage_letter_names_distinct none(4)]
    by (simp add: MarriageLetter_def decl_defs default_value_def)
  have 5: "map_of (table_construct MarriageLetter now kw) ''custom_fields'' = Some (VDict [])"
    unfolding table_construct_default [OF marriage_letter_names_distinct none(5)]
    by (simp add: MarriageLetter_def decl_defs default_value_def)
  from tab 1 2 3 4 5 have "\<exists>ob. construct co MarriageLetter now kw = Inr ob
     \<and> map_of ob ''is_printed'' = Some (VBool False)
     \<and> map_of ob ''print_date'' = Some VNone
     \<and> map_of ob ''husband_marital_status'' = Some (VEnum (OfMaritalStatus SINGLE))
     \<and> map_of ob ''wife_marital_status'' = Some (VEnum (OfMaritalStatus SINGLE))
     \<and> map_of ob ''custom_fields'' = Some (VDict [])"
    by simp
  with decl show ?thesis by (rule conjI)
qed

text \<open>The letter made from \<open>letter_input\<close>, which gives the seven required fields.\<close>

theorem new_marriage_letter_defaults_witness:
  "set (map fst letter_input) = set (required_fields MarriageLetter) \<and>
   (\<exists>ob. construct no_conversion MarriageLetter epoch letter_input = Inr ob
     \<and> map_of ob ''is_printed'' = Some (VBool False)
     \<and> map_of ob ''print_date'' = Some VNone
     \<and> map_of ob ''husband_marital_status'' = Some (VEnum (OfMaritalStatus SINGLE))
     \<and> map_of ob ''wife_marital_status'' = Some (VEnum (OfMaritalStatus SINGLE))
     \<and> map_of ob ''custom_fields'' = Some (VDict []))"
proof -
  have h: "set (map fst letter_input) = set (required_fields MarriageLetter)"
    by (simp add: letter_input_def required_marriage_letter insert_commute)
  from h new_marriage_letter_defaults [OF h, of no_conversion epoch, THEN conjunct2] show ?thesis by blast
qed

lemma instance_ofD:
  "instance_of m ob \<Longrightarrow> f \<in> set (model_fields m) \<Longrightarrow>
   \<exists>v. map_of ob (fname f) = Some v \<and> has_type (ftype f) v"
  by (auto simp: instance_of_def list_all_iff split: option.splits)








section \<open>Summary as a projection of the response\<close>

lemma map_of_by_name:
  "map_of (map (\<lambda>f. (fname f, g (fname f))) fs) n =
     (if n \<in> fname ` set fs then Some (g n) else None)"
  by (induction fs) auto

lemma typed_field_has_value:
  assumes "instance_of m r" and "(n, t) \<in> set (typed_fields m)"
  shows "\<exists>v. map_of r n = Some v \<and> has_type t v"
proof -
  from assms(2) obtain f where "f \<in> set (model_fields m)" "fname f = n" "ftype f = t"
    by (auto simp: typed_fields_def)
  with instance_ofD [OF assms(1), of f] show ?thesis by simp
qed

lemma projection_exists:
  assumes sub: "set (typed_fields m') \<subseteq> set (typed_fields m)"
    and inst: "instance_of m r"
  shows "\<exists>s. instance_of m' s \<and> map fst s = map fname (model_fields m')
     \<and> list_all (\<lambda>n. map_of s n = map_of r n) (map fname (model_fields m'))"
proof -
  define s where "s = map (\<lambda>f. (fname f, the (map_of r (fname f)))) (model_fields m')"
  have val: "\<exists>v. map_of r (fname f) = Some v \<and> has_type (ftype f) v"
    if "f \<in> set (model_fields m')" for f
  proof -
    from that have "(fname f, ftype f) \<in> set (typed_fields m')"
      by (auto simp: typed_fields_def)
    with sub have "(fname f, ftype f) \<in> set (typed_fields m)" by blast
    from typed_field_has_value [OF inst this] show ?thesis .
  qed
  have look: "map_of s (fname f) = map_of r (fname f)" if "f \<in> set (model_fields m')" for f
  proof -
    from val [OF that] obtain v where "map_of r (fname f) = Some v" by blast
    with that map_of_by_name [of "\<lambda>n. the (map_of r n)" "model_fields m'" "fname f"]
    show ?thesis by (auto simp: s_def)
  qed
  have "instance_of m' s"
    unfolding instance_of_def list_all_iff
  proof
    fix f assume f: "f \<in> set (model_fields m')"
    from val [OF f] look [OF f]
    show "case map_of s (fname f) of None \<Rightarrow> False | Some v \<Rightarrow> has_type (ftype f) v"
      by auto
  qed
  moreover have "map fst s = map fname (model_fields m')"
    by (simp add: s_def comp_def)
  moreover have "list_all (\<lambda>n. map_of s n = map_of r n) (map fname (model_fields m'))"
    using look by (auto simp: list_all_iff)
  ultimately show ?thesis by blast
qed

lemma summary_fields_in_response:
  "set (typed_fields LetterSummary) \<subseteq> set (typed_fields MarriageLetterResponse)"
  by (simp add: typed_fields_def LetterSummary_def MarriageLetterResponse_def decl_defs)

text \<open>
  C10. The seven fields of \<^verbatim>\<open>LetterSummary\<close> are fields of
  \<^verbatim>\<open>MarriageLetterResponse\<close> with the same names and types, and for every instance of
  \<^verbatim>\<open>MarriageLetterResponse\<close> there is an instance of \<^verbatim>\<open>LetterSummary\<close> that has
  exactly those seven fields and agrees with the response on each of them.
\<close>

theorem letter_summary_projection:
  "typed_fields LetterSummary =
     [(''id'', PInt), (''letter_type'', PEnum LetterTypeE), (''reference_number'', PStr),
      (''husband_name'', PStr), (''wife_name'', PStr), (''created_at'', PDatetime),
      (''is_printed'', PBool)]
   \<and> set (typed_fields LetterSummary) \<subseteq> set (typed_fields MarriageLetterResponse)
   \<and> (instance_of MarriageLetterResponse r \<longrightarrow>
        (\<exists>s. instance_of LetterSummary s
           \<and> map fst s = map fname (model_fields LetterSummary)
           \<and> list_all (\<lambda>n. map_of s n = map_of r n)
               (map fname (model_fields LetterSummary))))"
proof (intro conjI impI)
  show "typed_fields LetterSummary =
     [(''id'', PInt), (''letter_type'', PEnum LetterTypeE), (''reference_number'', PStr),
      (''husband_name'', PStr), (''wife_name'', PStr), (''created_at'', PDatetime),
      (''is_printed'', PBool)]"
    by (simp add: typed_fields_def LetterSummary_def decl_defs)
next
  show "set (typed_fields LetterSummary) \<subseteq> set (typed_fields MarriageLetterResponse)"
    by (rule summary_fields_in_response)
next
  assume "instance_of MarriageLetterResponse r"
  from projection_exists [OF summary_fields_in_response this]
  show "\<exists>s. instance_of LetterSummary s
           \<and> map fst s = map fname (model_fields LetterSummary)
           \<and> list_all (\<lambda>n. map_of s n = map_of r n)
               (map fname (model_fields LetterSummary))" .
qed

text \<open>The summary of \<open>response_example\<close>.\<close>

theorem letter_summary_projection_witness:
  "instance_of MarriageLetterResponse response_example
   \<and> (\<exists>s. instance_of LetterSummary s
        \<and> map fst s = map fname (model_fields LetterSummary)
        \<and> list_all (\<lambda>n. map_of s n = map_of response_example n)
            (map fname (model_fields LetterSummary)))"
proof -
  have i: "instance_of MarriageLetterResponse response_example"
    by (simp add: instance_of_def response_example_def MarriageLetterResponse_def decl_defs)
  from i letter_summary_projection [THEN conjunct2, THEN conjunct2, THEN mp, OF i] show ?thesis by blast
qed

section \<open>Length limits\<close>

lemma succeeds_validate:
  "succeeds (validate co m now kw) \<longleftrightarrow>
     (\<forall>f \<in> set (model_fields m). \<exists>v. validate_field co now kw f = Inr v)"
proof -
  have one: "(case x of Inl e \<Rightarrow> [e] | Inr v \<Rightarrow> []) = [] \<longleftrightarrow> (\<exists>v. x = Inr v)"
    for x :: "error + py_val"
    by (cases x) simp_all
  have "field_errors co m now kw = [] \<longleftrightarrow>
     (\<forall>f \<in> set (model_fields m). \<exists>v. validate_field co now kw f = Inr v)"
    by (simp add: field_errors_def one)
  then show ?thesis by (simp add: validate_def succeeds_def)
qed

lemma validate_field_same:
  "map_of kw' (fname f) = map_of kw (fname f) \<Longrightarrow>
   validate_field co now kw' f = validate_field co now kw f"
  by (simp add: validate_field_def)

lemma validate_field_limited_str:
  assumes "ftype f = PStr" and "max_length f = Some n"
    and "map_of kw (fname f) = Some (VStr s)"
  shows "(\<exists>v. validate_field co now kw f = Inr v) \<longleftrightarrow> length s \<le> n"
  using assms by (simp add: validate_field_def)

lemma within_limit_cases:
  "within_limit kw f \<longleftrightarrow>
     (\<forall>n s. max_length f = Some n \<longrightarrow> map_of kw (fname f) = Some (VStr s) \<longrightarrow>
        ftype f = PStr \<longrightarrow> length s \<le> n)"
proof (cases "max_length f")
  case None
  then show ?thesis by (simp add: within_limit_def)
next
  case n: (Some n)
  show ?thesis
  proof (cases "map_of kw (fname f)")
    case None
    with n show ?thesis by (simp add: within_limit_def)
  next
    case (Some x)
    with n show ?thesis by (cases x) (auto simp: within_limit_def)
  qed
qed

lemma limited_str_cases:
  "(case x of Some (VStr s) \<Rightarrow> True | _ \<Rightarrow> False) \<longleftrightarrow> (\<exists>s. x = Some (VStr s))"
proof (cases x)
  case None
  then show ?thesis by simp
next
  case (Some y)
  then show ?thesis by (cases y) simp_all
qed

lemma valid_field_within_limit:
  assumes "validate_field co now kw f = Inr v"
  shows "within_limit kw f"
  unfolding within_limit_cases
proof (intro allI impI)
  fix n s
  assume n: "max_length f = Some n" and s: "map_of kw (fname f) = Some (VStr s)"
    and t: "ftype f = PStr"
  from validate_field_limited_str [OF t n s, of co now] assms show "length s \<le> n"
    by blast
qed

lemma same_or_limited_valid:
  assumes old: "validate_field co now kw f = Inr v"
    and change: "same_or_limited_str kw kw' f"
  shows "(\<exists>v'. validate_field co now kw' f = Inr v') \<longleftrightarrow> within_limit kw' f"
proof (cases "map_of kw' (fname f) = map_of kw (fname f)")
  case True
  from validate_field_same [OF True, of co now] old
  have "validate_field co now kw' f = Inr v" by simp
  with valid_field_within_limit [of co now kw' f v] show ?thesis by simp
next
  case False
  with change have t: "ftype f = PStr" and "max_length f \<noteq> None"
    and "\<exists>s. map_of kw' (fname f) = Some (VStr s)"
    by (simp_all add: same_or_limited_str_def limited_str_cases)
  then obtain n s where n: "max_length f = Some n"
    and s: "map_of kw' (fname f) = Some (VStr s)"
    by blast
  from validate_field_limited_str [OF t n s, of co now] t n s show ?thesis
    by (simp add: within_limit_cases)
qed

lemma limits_PersonCreate:
  "length_limits PersonCreate =
     [(''full_name'', 255), (''place_of_birth'', 255), (''nationality'', 100),
      (''occupation'', 255), (''institution_name'', 255), (''address'', 500),
      (''phone_number'', 20), (''email'', 255), (''complexion'', 100),
      (''physical_disabilities'', 500), (''health_conditions'', 500), (''hobbies'', 500),
      (''additional_notes'', 1000)]"
  by (simp add: length_limits_def PersonCreate_def decl_defs)

lemma limits_MarriagePreferencesCreate:
  "length_limits MarriagePreferencesCreate =
     [(''preferred_occupation'', 255), (''preferred_nationality'', 100),
      (''preferred_location'', 255), (''additional_requirements'', 1000)]"
  by (simp add: length_limits_def MarriagePreferencesCreate_def decl_defs)

lemma limits_FamilyBackgroundCreate:
  "length_limits FamilyBackgroundCreate =
     [(''family_origin'', 255), (''ancestral_home'', 255), (''family_traditions'', 1000),
      (''social_status'', 255), (''family_values'', 1000), (''siblings_details'', 1000),
      (''family_income_range'', 100), (''property_details'', 500),
      (''family_reputation'', 500)]"
  by (simp add: length_limits_def FamilyBackgroundCreate_def decl_defs)

lemma limits_MarriageLetterCreate:
  "length_limits MarriageLetterCreate =
     [(''purpose'', 500), (''special_requests'', 1000), (''contact_person'', 255),
      (''contact_phone'', 20), (''contact_email'', 255)]"
  by (simp add: length_limits_def MarriageLetterCreate_def decl_defs)

text \<open>
  C5, as the claim states it: validation succeeds if and only if every string field with a
  length limit is within its limit. An input to \<^verbatim>\<open>PersonCreate\<close> whose strings are all
  within their limits and whose \<^verbatim>\<open>religion\<close> is not a member of \<^verbatim>\<open>Religion\<close> is
  refused, for the religion alone.
\<close>

theorem length_limits_not_sufficient:
  "within_limits PersonCreate (person_input ''A'' ''zoroastrianism'')
   \<and> validate no_conversion PersonCreate epoch (person_input ''A'' ''zoroastrianism'') =
       Inl [Invalid ''religion'']"
  by (simp add: within_limits_def within_limit_def validate_def field_errors_def
      validate_field_def default_value_def enum_lookup_def person_input_def PersonCreate_def
      decl_defs)

text \<open>
  C5, amended. For every schema, an input that validates has every string of a limited
  \<^verbatim>\<open>str\<close> field within the limit, so a longer string makes validation fail. When an
  input validates and a second input differs from it only in the strings given for limited
  \<^verbatim>\<open>str\<close> fields, the second input validates if and only if each of those strings is
  within its limit. The limited fields of the four Create schemas and their limits are
  the ones listed, \<^verbatim>\<open>PersonCreate.full_name\<close> with 255 among them.
\<close>

theorem length_limits_enforced:
  "(succeeds (validate co m now kw) \<longrightarrow> within_limits m kw)
   \<and> (succeeds (validate co m now kw) \<and> differs_in_limited_strs m kw kw' \<longrightarrow>
        succeeds (validate co m now kw') = within_limits m kw')
   \<and> map (\<lambda>m. (cls_name m, length_limits m)) create_schemas =
       [(''PersonCreate'',
         [(''full_name'', 255), (''place_of_birth'', 255), (''nationality'', 100),
          (''occupation'', 255), (''institution_name'', 255), (''address'', 500),
          (''phone_number'', 20), (''email'', 255), (''complexion'', 100),
          (''physical_disabilities'', 500), (''health_conditions'', 500), (''hobbies'', 500),
          (''additional_notes'', 1000)]),
        (''MarriagePreferencesCreate'',
         [(''preferred_occupation'', 255), (''preferred_nationality'', 100),
          (''preferred_location'', 255), (''additional_requirements'', 1000)]),
        (''FamilyBackgroundCreate'',
         [(''family_origin'', 255), (''ancestral_home'', 255), (''family_traditions'', 1000),
          (''social_status'', 255), (''family_values'', 1000), (''siblings_details'', 1000),
          (''family_income_range'', 100), (''property_details'', 500),
          (''family_reputation'', 500)]),
        (''MarriageLetterCreate'',
         [(''purpose'', 500), (''special_requests'', 1000), (''contact_person'', 255),
          (''contact_phone'', 20), (''contact_email'', 255)])]"
proof (intro conjI impI)
  assume "succeeds (validate co m now kw)"
  then show "within_limits m kw"
    by (auto simp: succeeds_validate within_limits_def list_all_iff
        intro: valid_field_within_limit)
next
  assume "succeeds (validate co m now kw) \<and> differs_in_limited_strs m kw kw'"
  then have old: "\<forall>f \<in> set (model_fields m). \<exists>v. validate_field co now kw f = Inr v"
    and change: "\<forall>f \<in> set (model_fields m). same_or_limited_str kw kw' f"
    by (simp_all add: succeeds_validate differs_in_limited_strs_def list_all_iff)
  have "(\<exists>v'. validate_field co now kw' f = Inr v') \<longleftrightarrow> within_limit kw' f"
    if "f \<in> set (model_fields m)" for f
    using old change that same_or_limited_valid [of co now kw f _ kw'] by blast
  then show "succeeds (validate co m now kw') = within_limits m kw'"
    by (simp add: succeeds_validate within_limits_def list_all_iff)
next
  show "map (\<lambda>m. (cls_name m, length_limits m)) create_schemas =
       [(''PersonCreate'',
         [(''full_name'', 255), (''place_of_birth'', 255), (''nationality'', 100),
          (''occupation'', 255), (''institution_name'', 255), (''address'', 500),
          (''phone_number'', 20), (''email'', 255), (''complexion'', 100),
          (''physical_disabilities'', 500), (''health_conditions'', 500), (''hobbies'', 500),
          (''additional_notes'', 1000)]),
        (''MarriagePreferencesCreate'',
         [(''preferred_occupation'', 255), (''preferred_nationality'', 100),
          (''preferred_location'', 255), (''additional_requirements'', 1000)]),
        (''FamilyBackgroundCreate'',
         [(''family_origin'', 255), (''ancestral_home'', 255), (''family_traditions'', 1000),
          (''social_status'', 255), (''family_values'', 1000), (''siblings_details'', 1000),
          (''family_income_range'', 100), (''property_details'', 500),
          (''family_reputation'', 500)]),
        (''MarriageLetterCreate'',
         [(''purpose'', 500), (''special_requests'', 1000), (''contact_person'', 255),
          (''contact_phone'', 20), (''contact_email'', 255)])]"
    unfolding create_schemas_def list.map limits_PersonCreate limits_MarriagePreferencesCreate
      limits_FamilyBackgroundCreate limits_MarriageLetterCreate
    by (simp add: schema_defs)
qed

lemma person_input_valid:
  "succeeds (validate no_conversion PersonCreate epoch (person_input ''A'' ''islam''))"
  by (simp add: succeeds_def validate_def field_errors_def validate_field_def
      default_value_def enum_lookup_def person_input_def PersonCreate_def decl_defs)

lemma person_input_differs:
  "differs_in_limited_strs PersonCreate (person_input ''A'' ''islam'') (person_input name ''islam'')"
  by (simp add: differs_in_limited_strs_def same_or_limited_str_def person_input_def
      PersonCreate_def decl_defs)

lemma person_input_within:
  "within_limits PersonCreate (person_input name ''islam'') \<longleftrightarrow> length name \<le> 255"
  by (simp add: within_limits_def within_limit_def person_input_def PersonCreate_def decl_defs)

text \<open>
  \<^verbatim>\<open>PersonCreate\<close> on a valid input: a \<^verbatim>\<open>full_name\<close> of 255 characters validates, one of
  256 characters does not.
\<close>

theorem length_limits_enforced_witness:
  "succeeds (validate no_conversion PersonCreate epoch (person_input ''A'' ''islam''))
   \<and> differs_in_limited_strs PersonCreate (person_input ''A'' ''islam'')
       (person_input (replicate 255 CHR ''a'') ''islam'')
   \<and> differs_in_limited_strs PersonCreate (person_input ''A'' ''islam'')
       (person_input (replicate 256 CHR ''a'') ''islam'')
   \<and> within_limits PersonCreate (person_input ''A'' ''islam'')
   \<and> succeeds (validate no_conversion PersonCreate epoch
       (person_input (replicate 255 CHR ''a'') ''islam''))
   \<and> \<not> succeeds (validate no_conversion PersonCreate epoch
       (person_input (replicate 256 CHR ''a'') ''islam''))"
proof -
  note v = person_input_valid
  note d = person_input_differs
  have a: "within_limits PersonCreate (person_input ''A'' ''islam'')"
    using length_limits_enforced [THEN conjunct1, THEN mp, OF v] .
  have b: "succeeds (validate no_conversion PersonCreate epoch (person_input name ''islam'')) =
      (length name \<le> 255)" for name
    using length_limits_enforced [THEN conjunct2, THEN conjunct1, THEN mp, OF conjI, OF v d]
    by (simp add: person_input_within)
  from v d a b [of "replicate 255 CHR ''a''"] b [of "replicate 256 CHR ''a''"]
  show ?thesis by simp
qed

section \<open>Enum membership\<close>

lemma religion_lookup:
  "enum_lookup ReligionE s \<noteq> None \<longleftrightarrow>
     s \<in> set [''islam'', ''christianity'', ''hinduism'', ''buddhism'', ''judaism'', ''other'']"
  by (auto simp: enum_lookup_def)

lemma letter_type_lookup:
  "enum_lookup LetterTypeE s \<noteq> None \<longleftrightarrow> s \<in> set [''N1'', ''N2'', ''N3'', ''N4'', ''N5'']"
  by (auto simp: enum_lookup_def)

lemma invalid_field_fails:
  assumes "f \<in> set (model_fields m)" and "map_of kw (fname f) = Some v"
    and "check_value co f (ftype f) v = None"
  shows "\<not> succeeds (validate co m now kw)"
proof
  assume "succeeds (validate co m now kw)"
  with assms(1) obtain v' where "validate_field co now kw f = Inr v'"
    by (auto simp: succeeds_validate)
  with assms(2,3) show False by (simp add: validate_field_def)
qed

text \<open>
  C6. The values of \<^verbatim>\<open>Religion\<close> are the six strings and those of \<^verbatim>\<open>LetterType\<close> the
  five strings listed. The \<^verbatim>\<open>religion\<close> field of \<^verbatim>\<open>PersonCreate\<close> takes a string exactly
  when it is one of the six, the \<^verbatim>\<open>letter_type\<close> field of \<^verbatim>\<open>MarriageLetterCreate\<close>
  exactly when it is one of the five, and an input that gives either field any other
  string fails validation.
\<close>

theorem enum_membership_enforced:
  "map member_value (members ReligionE) =
     [''islam'', ''christianity'', ''hinduism'', ''buddhism'', ''judaism'', ''other'']
   \<and> map member_value (members LetterTypeE) = [''N1'', ''N2'', ''N3'', ''N4'', ''N5'']
   \<and> accepts co PersonCreate ''religion'' (VStr s) =
       (s \<in> set [''islam'', ''christianity'', ''hinduism'', ''buddhism'', ''judaism'', ''other''])
   \<and> accepts co MarriageLetterCreate ''letter_type'' (VStr s) =
       (s \<in> set [''N1'', ''N2'', ''N3'', ''N4'', ''N5''])
   \<and> (map_of kw ''religion'' = Some (VStr s)
        \<and> s \<notin> set [''islam'', ''christianity'', ''hinduism'', ''buddhism'', ''judaism'', ''other'']
        \<longrightarrow> \<not> succeeds (validate co PersonCreate now kw))
   \<and> (map_of kw ''letter_type'' = Some (VStr s)
        \<and> s \<notin> set [''N1'', ''N2'', ''N3'', ''N4'', ''N5'']
        \<longrightarrow> \<not> succeeds (validate co MarriageLetterCreate now kw))"
proof (intro conjI impI)
  show "map member_value (members ReligionE) =
     [''islam'', ''christianity'', ''hinduism'', ''buddhism'', ''judaism'', ''other'']"
    by simp
next
  show "map member_value (members LetterTypeE) = [''N1'', ''N2'', ''N3'', ''N4'', ''N5'']"
    by simp
next
  have "accepts co PersonCreate ''religion'' (VStr s) = (enum_lookup ReligionE s \<noteq> None)"
    by (simp add: accepts_def PersonCreate_def decl_defs)
  then show "accepts co PersonCreate ''religion'' (VStr s) =
       (s \<in> set [''islam'', ''christianity'', ''hinduism'', ''buddhism'', ''judaism'', ''other''])"
    by (simp only: religion_lookup)
next
  have "accepts co MarriageLetterCreate ''letter_type'' (VStr s) =
      (enum_lookup LetterTypeE s \<noteq> None)"
    by (simp add: accepts_def MarriageLetterCreate_def decl_defs)
  then show "accepts co MarriageLetterCreate ''letter_type'' (VStr s) =
       (s \<in> set [''N1'', ''N2'', ''N3'', ''N4'', ''N5''])"
    by (simp only: letter_type_lookup)
next
  assume a: "map_of kw ''religion'' = Some (VStr s)
        \<and> s \<notin> set [''islam'', ''christianity'', ''hinduism'', ''buddhism'', ''judaism'', ''other'']"
  then have none: "enum_lookup ReligionE s = None"
    using religion_lookup [of s] by blast
  have f: "Field ''religion'' (PEnum ReligionE) \<in> set (model_fields PersonCreate)"
    by (simp add: PersonCreate_def)
  show "\<not> succeeds (validate co PersonCreate now kw)"
    by (rule invalid_field_fails [OF f, of _ "VStr s"]) (use a none in \<open>simp_all add: decl_defs\<close>)
next
  assume a: "map_of kw ''letter_type'' = Some (VStr s)
        \<and> s \<notin> set [''N1'', ''N2'', ''N3'', ''N4'', ''N5'']"
  then have none: "enum_lookup LetterTypeE s = None"
    using letter_type_lookup [of s] by blast
  have f: "Field ''letter_type'' (PEnum LetterTypeE) \<in> set (model_fields MarriageLetterCreate)"
    by (simp add: MarriageLetterCreate_def)
  show "\<not> succeeds (validate co MarriageLetterCreate now kw)"
    by (rule invalid_field_fails [OF f, of _ "VStr s"]) (use a none in \<open>simp_all add: decl_defs\<close>)
qed

text \<open>
  \<^verbatim>\<open>"zoroastrianism"\<close> as a religion and \<^verbatim>\<open>"N6"\<close> as a letter type: both inputs are
  refused.
\<close>

theorem enum_membership_enforced_witness:
  "map_of (person_input ''A'' ''zoroastrianism'') ''religion'' = Some (VStr ''zoroastrianism'')
   \<and> ''zoroastrianism'' \<notin>
       set [''islam'', ''christianity'', ''hinduism'', ''buddhism'', ''judaism'', ''other'']
   \<and> \<not> succeeds (validate no_conversion PersonCreate epoch (person_input ''A'' ''zoroastrianism''))
   \<and> map_of [(''letter_type'', VStr ''N6'')] ''letter_type'' = Some (VStr ''N6'')
   \<and> ''N6'' \<notin> set [''N1'', ''N2'', ''N3'', ''N4'', ''N5'']
   \<and> \<not> succeeds (validate no_conversion MarriageLetterCreate epoch [(''letter_type'', VStr ''N6'')])"
proof -
  have a: "map_of (person_input ''A'' ''zoroastrianism'') ''religion'' =
        Some (VStr ''zoroastrianism'')
      \<and> ''zoroastrianism'' \<notin>
        set [''islam'', ''christianity'', ''hinduism'', ''buddhism'', ''judaism'', ''other'']"
    by (simp add: person_input_def)
  have b: "map_of [(''letter_type'', VStr ''N6'')] ''letter_type'' = Some (VStr ''N6'')
      \<and> ''N6'' \<notin> set [''N1'', ''N2'', ''N3'', ''N4'', ''N5'']"
    by simp
  note c = enum_membership_enforced [where s = "''zoroastrianism''" and kw = "person_input ''A'' ''zoroastrianism''"
      and co = no_conversion and now = epoch]
  note d = enum_membership_enforced [where s = "''N6''" and kw = "[(''letter_type'', VStr ''N6'')]"
      and co = no_conversion and now = epoch]
  from a c have 1:
    "\<not> succeeds (validate no_conversion PersonCreate epoch (person_input ''A'' ''zoroastrianism''))"
    by blast
  from b d have 2:
    "\<not> succeeds (validate no_conversion MarriageLetterCreate epoch [(''letter_type'', VStr ''N6'')])"
    by blast
  from a b 1 2 show ?thesis by blast
qed

end
